theory Spec2Isabelle
  imports
    Complex_Main
    "HOL-Library.Char_ord"
    "HOL-Library.List_Lexorder"
    "HOL-Library.Multiset"
begin

section \<open>JavaScript numbers\<close>

text \<open>
  A JavaScript number is an IEEE 754 binary64 value. The finite ones are modelled by the
  rational they denote, next to the two infinities and NaN. Zero carries no sign: the
  sign of a zero only shows in the sign of a quotient by zero, and the only divisors of
  \<open>convertCurrency\<close> are a rate that passed the truthiness test (so not zero) and
  \<open>amount\<close>, whose dividend is zero or NaN whenever \<open>amount\<close> is zero.
\<close>

datatype jsnum = Fin rat | PInf | NInf | NaN

function bit_width :: "int \<Rightarrow> int" where
  "bit_width n = (if n \<le> 0 then 0 else 1 + bit_width (n div 2))"
  by pat_completeness auto
termination
  by (relation "measure nat") auto

declare bit_width.simps [simp del]

definition pow2 :: "int \<Rightarrow> rat" where
  "pow2 k = (if 0 \<le> k then 2 ^ nat k else 1 / 2 ^ nat (- k))"

text \<open>For \<open>0 < x\<close>, \<open>ilog2 x\<close> is the exponent \<open>e\<close> with \<open>2 ^ e \<le> x < 2 ^ (e + 1)\<close>.\<close>

definition ilog2 :: "rat \<Rightarrow> int" where
  "ilog2 x =
     (if 1 \<le> x then bit_width \<lfloor>x\<rfloor> - 1
      else let k = bit_width \<lfloor>1 / x\<rfloor> - 1
           in if x * pow2 k = 1 then - k else - k - 1)"

definition round_half_even :: "rat \<Rightarrow> int" where
  "round_half_even y =
     (let f = \<lfloor>y\<rfloor>; d = y - of_int f
      in if d < 1 / 2 then f else if 1 / 2 < d then f + 1
         else if even f then f else f + 1)"

text \<open>
  \<open>fl x\<close> is the binary64 value nearest to \<open>x\<close> (ties to the even significand): 53
  significant bits, the exponent not below that of the subnormals, and an infinity once
  the rounded value reaches \<open>2 ^ 1024\<close>. Every arithmetic operation of the source
  returns the \<open>fl\<close> of its exact result.
\<close>

definition fl :: "rat \<Rightarrow> jsnum" where
  "fl x =
     (if x = 0 then Fin 0
      else let e = max (ilog2 \<bar>x\<bar>) (- 1022);
               q = pow2 (e - 52);
               m = round_half_even (x / q)
           in if 1023 < e \<or> (e = 1023 \<and> \<bar>m\<bar> = 2 ^ 53)
              then (if 0 < x then PInf else NInf)
              else Fin (of_int m * q))"

text \<open>The operator \<open>*\<close> on numbers.\<close>

fun jmul :: "jsnum \<Rightarrow> jsnum \<Rightarrow> jsnum" where
  "jmul (Fin a) (Fin b) = fl (a * b)"
| "jmul NaN y = NaN"
| "jmul x NaN = NaN"
| "jmul (Fin a) PInf = (if a = 0 then NaN else if 0 < a then PInf else NInf)"
| "jmul (Fin a) NInf = (if a = 0 then NaN else if 0 < a then NInf else PInf)"
| "jmul PInf (Fin b) = (if b = 0 then NaN else if 0 < b then PInf else NInf)"
| "jmul NInf (Fin b) = (if b = 0 then NaN else if 0 < b then NInf else PInf)"
| "jmul PInf PInf = PInf"
| "jmul PInf NInf = NInf"
| "jmul NInf PInf = NInf"
| "jmul NInf NInf = PInf"

text \<open>The operator \<open>/\<close> on numbers; a quotient by zero is an infinity, or NaN for \<open>0 / 0\<close>.\<close>

fun jdiv :: "jsnum \<Rightarrow> jsnum \<Rightarrow> jsnum" where
  "jdiv (Fin a) (Fin b) =
     (if b = 0 then (if a = 0 then NaN else if 0 < a then PInf else NInf)
      else fl (a / b))"
| "jdiv NaN y = NaN"
| "jdiv x NaN = NaN"
| "jdiv (Fin a) PInf = Fin 0"
| "jdiv (Fin a) NInf = Fin 0"
| "jdiv PInf (Fin b) = (if 0 \<le> b then PInf else NInf)"
| "jdiv NInf (Fin b) = (if 0 \<le> b then NInf else PInf)"
| "jdiv PInf PInf = NaN"
| "jdiv PInf NInf = NaN"
| "jdiv NInf PInf = NaN"
| "jdiv NInf NInf = NaN"

text \<open>
  \<open>Number(x.toFixed(6))\<close>. For a finite \<open>x\<close> below \<open>10 ^ 21\<close> in magnitude,
  \<open>toFixed(6)\<close> prints the integer \<open>n\<close> for which \<open>n / 10 ^ 6\<close> is nearest to the
  magnitude of \<open>x\<close> (the larger \<open>n\<close> of two), with the sign of \<open>x\<close>, and \<open>Number\<close>
  reads the decimal back as the nearest binary64 value. From \<open>10 ^ 21\<close> on, and for the
  infinities and NaN, \<open>toFixed\<close> prints the number as \<open>String\<close> does, which \<open>Number\<close>
  reads back unchanged.
\<close>

definition toFixed6 :: "jsnum \<Rightarrow> jsnum" where
  "toFixed6 x =
     (case x of
        Fin r \<Rightarrow>
          (if 10 ^ 21 \<le> \<bar>r\<bar> then Fin r
           else let n = \<lfloor>\<bar>r\<bar> * 10 ^ 6 + 1 / 2\<rfloor>
                in fl (sgn r * of_int n / 10 ^ 6))
      | _ \<Rightarrow> x)"

definition isNaN :: "jsnum \<Rightarrow> bool" where
  "isNaN x = (x = NaN)"

text \<open>The comparisons \<open>x > y\<close> and \<open>x < y\<close> on numbers; both are false on NaN.\<close>

fun jless :: "jsnum \<Rightarrow> jsnum \<Rightarrow> bool" where
  "jless NaN y = False"
| "jless x NaN = False"
| "jless (Fin a) (Fin b) = (a < b)"
| "jless x NInf = False"
| "jless PInf y = False"
| "jless NInf y = True"
| "jless (Fin a) PInf = True"

definition jgreater :: "jsnum \<Rightarrow> jsnum \<Rightarrow> bool" where
  "jgreater x y = jless y x"

section \<open>Configuration and validation\<close>

definition BASE_CURRENCY :: string where
  "BASE_CURRENCY = ''USD''"

definition is_upper :: "char \<Rightarrow> bool" where
  "is_upper c = (CHR ''A'' \<le> c \<and> c \<le> CHR ''Z'')"

text \<open>The test of the regular expression \<open>/^[A-Z]{3}$/\<close>.\<close>

definition validateCurrencyCode :: "string \<Rightarrow> bool" where
  "validateCurrencyCode code = (length code = 3 \<and> list_all is_upper code)"

definition validateAmount :: "jsnum \<Rightarrow> bool" where
  "validateAmount amount =
     (\<not> isNaN amount \<and> jgreater amount (Fin 0) \<and> jless amount (Fin 1000000000))"

section \<open>Rate objects and snapshots\<close>

text \<open>
  A rates object, as the data model has it, is the list of its own properties in the
  order of \<open>Object.keys\<close>, each key once, with binary64 values (the multipliers, as
  \<open>JSON.parse\<close> and \<open>response.json()\<close> deliver them).
\<close>

type_synonym rates_obj = "(string \<times> rat) list"

text \<open>
  What reading a property delivers: \<open>undefined\<close>, a finite number, a property inherited
  from \<open>Object.prototype\<close> (a function or an object), or any other value. The program
  uses such a value in two ways only, as the operand of \<open>!\<close> and as an operand of
  \<open>*\<close> or \<open>/\<close>, so any other value is given by its truthiness and by the number it
  converts to.
\<close>

datatype jsval = Undefined | Number rat | Inherited | Other bool jsnum

definition object_prototype_names :: "string list" where
  "object_prototype_names =
     [''constructor'', ''__defineGetter__'', ''__defineSetter__'', ''hasOwnProperty'',
      ''__lookupGetter__'', ''__lookupSetter__'', ''isPrototypeOf'',
      ''propertyIsEnumerable'', ''toString'', ''valueOf'', ''__proto__'',
      ''toLocaleString'']"

text \<open>
  Reading \<open>obj[key]\<close> of a rates object: an own property, else a property inherited
  from \<open>Object.prototype\<close>, else \<open>undefined\<close>.
\<close>

definition get_prop :: "rates_obj \<Rightarrow> string \<Rightarrow> jsval" where
  "get_prop obj key =
     (case map_of obj key of
        Some v \<Rightarrow> Number v
      | None \<Rightarrow> if key \<in> set object_prototype_names then Inherited else Undefined)"

fun truthy :: "jsval \<Rightarrow> bool" where
  "truthy Undefined = False"
| "truthy (Number v) = (v \<noteq> 0)"
| "truthy Inherited = True"
| "truthy (Other b n) = b"

text \<open>The conversion of an operand of \<open>*\<close> or \<open>/\<close> to a number.\<close>

fun to_number :: "jsval \<Rightarrow> jsnum" where
  "to_number Undefined = NaN"
| "to_number (Number v) = Fin v"
| "to_number Inherited = NaN"
| "to_number (Other b n) = n"

text \<open>
  The value of the field \<open>rates\<close> of a snapshot. The code installs whatever the
  provider's body has under \<open>conversion_rates\<close> and whatever the stored text parses
  to, so next to a rates object the field can be \<open>undefined\<close> (the property is
  absent), \<open>null\<close>, or any other value: a number, a string, a boolean, an array, an
  object with values that are not finite numbers. Such a value is given by what the
  program observes of it, the list that \<open>Object.keys\<close> returns and what reading a
  property returns.
\<close>

datatype jsrates =
    RatesObject rates_obj
  | RatesUndefined
  | RatesNull
  | RatesOther "string list" "string \<Rightarrow> jsval"

record snapshot =
  base_currency :: string
  rates :: jsrates
  last_updated :: string

datatype js_error = NetworkError | SyntaxError | TypeError | DbError

text \<open>\<open>rates[key]\<close>: a TypeError on \<open>undefined\<close> and \<open>null\<close>.\<close>

fun read_prop :: "jsrates \<Rightarrow> string \<Rightarrow> js_error + jsval" where
  "read_prop (RatesObject obj) key = Inr (get_prop obj key)"
| "read_prop RatesUndefined key = Inl TypeError"
| "read_prop RatesNull key = Inl TypeError"
| "read_prop (RatesOther ks rd) key = Inr (rd key)"

text \<open>\<open>Object.keys(rates)\<close>: a TypeError on \<open>undefined\<close> and \<open>null\<close>.\<close>

fun object_keys :: "jsrates \<Rightarrow> js_error + string list" where
  "object_keys (RatesObject obj) = Inr (map fst obj)"
| "object_keys RatesUndefined = Inl TypeError"
| "object_keys RatesNull = Inl TypeError"
| "object_keys (RatesOther ks rd) = Inr ks"

section \<open>The database module\<close>

text \<open>
  The column \<open>rates\<close> of a row holds text that \<open>JSON.parse\<close> reads as a value (which
  is never \<open>undefined\<close>), or the SQL value NULL, or text that \<open>JSON.parse\<close> rejects.
  \<open>JSON.stringify\<close> of a value that came from JSON is text that parses to the same
  value; of \<open>undefined\<close> it is \<open>undefined\<close>, a parameter that \<open>db.run\<close> leaves
  unbound, which stores NULL. A NULL column is read as \<open>null\<close>, and
  \<open>JSON.parse(null)\<close> is \<open>null\<close>.
\<close>

datatype stored_text = Json jsrates | SqlNull | Corrupt

fun stringify :: "jsrates \<Rightarrow> stored_text" where
  "stringify RatesUndefined = SqlNull"
| "stringify v = Json v"

fun parse :: "stored_text \<Rightarrow> js_error + jsrates" where
  "parse (Json v) = Inr v"
| "parse SqlNull = Inr RatesNull"
| "parse Corrupt = Inl SyntaxError"

record row =
  row_base_currency :: string
  row_rates :: stored_text
  row_last_updated :: string

datatype event =
    Fetch
  | DbRun string
  | DbGet string
  | ConsoleError string
  | ConsoleLog string

text \<open>
  The state of the process: the module variable \<open>ratesCache\<close> (\<open>None\<close> is
  \<open>null\<close>), the table \<open>exchange_rates\<close> keyed by its primary key, and the effects
  performed so far, oldest first.
\<close>

record world =
  ratesCache :: "snapshot option"
  exchange_rates :: "string \<rightharpoonup> row"
  trace :: "event list"

text \<open>What the provider answers: \<open>fetch\<close> rejects, or \<open>response.json()\<close> rejects, or
  the body parses. A parsed body is \<open>null\<close> or any other value; of the latter the
  model keeps the property \<open>result\<close> when it is a string (\<open>None\<close> otherwise: it is
  then not \<open>=== "success"\<close>) and the property \<open>conversion_rates\<close>, whatever it
  is.\<close>

datatype api_data = JNull | JValue "string option" jsrates

datatype fetch_outcome = Rejects | Unparsable | Parsed api_data

text \<open>What one operation meets outside the process: the provider's answer, whether the
  database reports an error to \<open>db.run\<close> and to \<open>db.get\<close>, the two clocks, the
  display names of \<open>Intl.DisplayNames\<close> (\<open>None\<close> is \<open>undefined\<close>), and
  \<open>String.prototype.localeCompare\<close> as the default locale of the process collates.\<close>

record env =
  fetch_response :: fetch_outcome
  db_run_fails :: bool
  db_get_fails :: bool
  now_iso :: string
  current_timestamp :: string
  display_name :: "string \<Rightarrow> string option"
  localeCompare :: "string \<Rightarrow> string \<Rightarrow> int"

definition emit :: "event \<Rightarrow> world \<Rightarrow> world" where
  "emit ev w = w\<lparr>trace := trace w @ [ev]\<rparr>"

definition saveRates :: "env \<Rightarrow> world \<Rightarrow> string \<Rightarrow> jsrates \<Rightarrow> (js_error + unit) \<times> world" where
  "saveRates e w baseCurrency rs =
     (let ratesJson = stringify rs;
          w1 = emit (DbRun baseCurrency) w
      in if db_run_fails e
         then (Inl DbError, emit (ConsoleError ''Error saving to database:'') w1)
         else (Inr (),
               emit (ConsoleLog ''Exchange rates updated successfully'')
                 (w1\<lparr>exchange_rates := (exchange_rates w1)
                    (baseCurrency \<mapsto>
                       \<lparr>row_base_currency = baseCurrency, row_rates = ratesJson,
                        row_last_updated = current_timestamp e\<rparr>)\<rparr>)))"

definition getRates :: "env \<Rightarrow> world \<Rightarrow> string \<Rightarrow> (js_error + snapshot option) \<times> world" where
  "getRates e w baseCurrency =
     (let w1 = emit (DbGet baseCurrency) w
      in if db_get_fails e
         then (Inl DbError, emit (ConsoleError ''Error loading from database:'') w1)
         else (case exchange_rates w1 baseCurrency of
                 Some r \<Rightarrow>
                   (case parse (row_rates r) of
                      Inr rs \<Rightarrow>
                        (Inr (Some \<lparr>base_currency = row_base_currency r, rates = rs,
                                    last_updated = row_last_updated r\<rparr>), w1)
                    | Inl parseError \<Rightarrow>
                        (Inl parseError,
                         emit (ConsoleError ''Error parsing rates from database:'') w1))
               | None \<Rightarrow> (Inr None, w1)))"

section \<open>The exchange rate service\<close>

text \<open>The \<open>try\<close> block of \<open>updateExchangeRates\<close>: \<open>Some\<close> error is the exception
  that leaves the block, with the state as it was when it was thrown.\<close>

definition updateExchangeRates_try :: "env \<Rightarrow> world \<Rightarrow> js_error option \<times> world" where
  "updateExchangeRates_try e w =
     (let w1 = emit Fetch w
      in case fetch_response e of
           Rejects \<Rightarrow> (Some NetworkError, w1)
         | Unparsable \<Rightarrow> (Some SyntaxError, w1)
         | Parsed JNull \<Rightarrow> (Some TypeError, w1)
         | Parsed (JValue result conversion_rates) \<Rightarrow>
             if result = Some ''success''
             then let w2 = w1\<lparr>ratesCache :=
                                Some \<lparr>base_currency = BASE_CURRENCY, rates = conversion_rates,
                                      last_updated = now_iso e\<rparr>\<rparr>
                  in (case saveRates e w2 BASE_CURRENCY conversion_rates of
                        (Inl err, w3) \<Rightarrow> (Some err, w3)
                      | (Inr u, w3) \<Rightarrow> (None, w3))
             else (None, w1))"

definition updateExchangeRates :: "env \<Rightarrow> world \<Rightarrow> (js_error + unit) \<times> world" where
  "updateExchangeRates e w =
     (case updateExchangeRates_try e w of
        (None, w1) \<Rightarrow> (Inr (), w1)
      | (Some error, w1) \<Rightarrow>
          (let w2 = emit (ConsoleError ''Error updating exchange rates:'') w1
           in if ratesCache w2 = None
              then (case getRates e w2 BASE_CURRENCY of
                      (Inr loaded, w3) \<Rightarrow>
                        (let w4 = w3\<lparr>ratesCache := loaded\<rparr>
                         in (Inr (),
                             if ratesCache w4 \<noteq> None
                             then emit (ConsoleLog ''Loaded rates from database backup'') w4
                             else w4))
                    | (Inl dbError, w3) \<Rightarrow>
                        (Inr (), emit (ConsoleError ''Error loading from database:'') w3))
              else (Inr (), w2)))"

definition getExchangeRates :: "env \<Rightarrow> world \<Rightarrow> snapshot option \<times> world" where
  "getExchangeRates e w =
     (case ratesCache w of
        Some cached \<Rightarrow> (Some cached, w)
      | None \<Rightarrow>
          (case getRates e w BASE_CURRENCY of
             (Inr rs, w1) \<Rightarrow> (rs, w1)
           | (Inl error, w1) \<Rightarrow> (None, emit (ConsoleError ''Error getting rates:'') w1)))"

record conversion =
  c_from :: string
  c_to :: string
  c_amount :: jsnum
  c_result :: jsnum
  c_rate :: jsnum
  c_last_updated :: string

text \<open>
  The value of the local variable \<open>convertedAmount\<close> before it is rounded, from the
  values \<open>vfrom\<close> of \<open>rates[from]\<close> and \<open>vto\<close> of \<open>rates[to]\<close>.
\<close>

definition convertedAmount :: "jsval \<Rightarrow> jsval \<Rightarrow> string \<Rightarrow> string \<Rightarrow> jsnum \<Rightarrow> jsnum" where
  "convertedAmount vfrom vto from to amount =
     (if from = BASE_CURRENCY then jmul amount (to_number vto)
      else if to = BASE_CURRENCY then jdiv amount (to_number vfrom)
      else let amountInUSD = jdiv amount (to_number vfrom)
           in jmul amountInUSD (to_number vto))"

text \<open>
  \<open>convertCurrency\<close> has no \<open>try\<close>: the TypeError of reading a property of a
  \<open>rates\<close> that is \<open>undefined\<close> or \<open>null\<close> rejects its promise. The operand
  \<open>!rates[to]\<close> of \<open>||\<close> is evaluated when \<open>rates[from]\<close> is truthy.
\<close>

definition convertCurrency ::
  "env \<Rightarrow> world \<Rightarrow> string \<Rightarrow> string \<Rightarrow> jsnum \<Rightarrow> (js_error + conversion option) \<times> world" where
  "convertCurrency e w from to amount =
     (case getExchangeRates e w of
        (None, w1) \<Rightarrow> (Inr None, w1)
      | (Some ratesData, w1) \<Rightarrow>
          (case read_prop (rates ratesData) from of
             Inl err \<Rightarrow> (Inl err, w1)
           | Inr vfrom \<Rightarrow>
               if \<not> truthy vfrom then (Inr None, w1)
               else (case read_prop (rates ratesData) to of
                       Inl err \<Rightarrow> (Inl err, w1)
                     | Inr vto \<Rightarrow>
                         if \<not> truthy vto then (Inr None, w1)
                         else let rounded = toFixed6 (convertedAmount vfrom vto from to amount)
                              in (Inr (Some \<lparr>c_from = from, c_to = to, c_amount = amount,
                                              c_result = rounded,
                                              c_rate = toFixed6 (jdiv rounded amount),
                                              c_last_updated = last_updated ratesData\<rparr>),
                                  w1))))"

record currency =
  code :: string
  name :: string

record currency_list =
  currencies :: "currency list"
  cl_last_updated :: string

text \<open>
  \<open>Array.prototype.sort\<close> with a comparison function: a stable sort, here by insertion
  from the right. The comparison function of the source is a collation, a total preorder
  on strings, and for such a function every stable sort returns the same list.
\<close>

fun insert_by :: "('a \<Rightarrow> 'a \<Rightarrow> int) \<Rightarrow> 'a \<Rightarrow> 'a list \<Rightarrow> 'a list" where
  "insert_by cmp x [] = [x]"
| "insert_by cmp x (y # ys) =
     (if cmp x y \<le> 0 then x # y # ys else y # insert_by cmp x ys)"

definition sort_by :: "('a \<Rightarrow> 'a \<Rightarrow> int) \<Rightarrow> 'a list \<Rightarrow> 'a list" where
  "sort_by cmp xs = foldr (insert_by cmp) xs []"

text \<open>\<open>new Intl.DisplayNames(["en"], {type: "currency"}).of(code) || code\<close>: the empty
  string and \<open>undefined\<close> are the falsy values of the left operand.\<close>

definition name_or_code :: "env \<Rightarrow> string \<Rightarrow> string" where
  "name_or_code e c =
     (case display_name e c of
        None \<Rightarrow> c
      | Some n \<Rightarrow> if n = [] then c else n)"

text \<open>
  \<open>getAvailableCurrencies\<close> has no \<open>try\<close> either: the TypeError of
  \<open>Object.keys\<close> on \<open>undefined\<close> or \<open>null\<close> rejects its promise.
\<close>

definition getAvailableCurrencies ::
  "env \<Rightarrow> world \<Rightarrow> (js_error + currency_list option) \<times> world" where
  "getAvailableCurrencies e w =
     (case getExchangeRates e w of
        (None, w1) \<Rightarrow> (Inr None, w1)
      | (Some ratesData, w1) \<Rightarrow>
          (case object_keys (rates ratesData) of
             Inl err \<Rightarrow> (Inl err, w1)
           | Inr ks \<Rightarrow>
               (let cs = map (\<lambda>c. \<lparr>code = c, name = name_or_code e c\<rparr>)
                           (filter validateCurrencyCode ks)
                in (Inr (Some \<lparr>currencies =
                                  sort_by (\<lambda>a b. localeCompare e (code a) (code b)) cs,
                                cl_last_updated = last_updated ratesData\<rparr>), w1))))"

section \<open>The words of the specification\<close>

text \<open>
  The failures of a refresh that the specification enumerates, as answers of the provider:
  a network error (\<open>fetch\<close> rejects), a response that does not parse (or parses to
  \<open>null\<close>) and a status other than success.
\<close>

definition refresh_failed :: "fetch_outcome \<Rightarrow> bool" where
  "refresh_failed r =
     (case r of
        Rejects \<Rightarrow> True
      | Unparsable \<Rightarrow> True
      | Parsed JNull \<Rightarrow> True
      | Parsed (JValue result conversion_rates) \<Rightarrow> result \<noteq> Some ''success'')"

text \<open>
  Rounding to six decimal places: \<open>y\<close> is \<open>x\<close> rounded to six decimals when it is
  the binary64 value of a decimal \<open>n / 10 ^ 6\<close> that lies within half a unit of the
  sixth decimal place of \<open>x\<close>.
\<close>

definition rounded_to_6_decimals :: "rat \<Rightarrow> jsnum \<Rightarrow> bool" where
  "rounded_to_6_decimals x y =
     (\<exists>n :: int. \<bar>of_int n / 10 ^ 6 - x\<bar> \<le> 1 / (2 * 10 ^ 6) \<and> y = fl (of_int n / 10 ^ 6))"

text \<open>The pattern of a currency code: exactly three letters, each a capital from A to Z.\<close>

definition three_capitals :: "string \<Rightarrow> bool" where
  "three_capitals k = (length k = 3 \<and> set k \<subseteq> set ''ABCDEFGHIJKLMNOPQRSTUVWXYZ'')"

section \<open>Two collations\<close>

text \<open>
  \<open>localeCompare\<close> in a locale that collates strings of capital letters as the
  alphabet orders them, as the English locales do.
\<close>

definition alphabet_compare :: "string \<Rightarrow> string \<Rightarrow> int" where
  "alphabet_compare a b = (if a < b then - 1 else if a = b then 0 else 1)"

text \<open>
  \<open>localeCompare\<close> on strings of capital letters in the Czech locale, where CH is a
  letter of its own between H and I: each letter has twice its code as its rank, and CH
  the rank after that of H.
\<close>

fun czech_key :: "string \<Rightarrow> nat list" where
  "czech_key [] = []"
| "czech_key [c] = [2 * of_char c]"
| "czech_key (c # d # cs) =
     (if c = CHR ''C'' \<and> d = CHR ''H'' then (2 * of_char d + 1) # czech_key cs
      else (2 * of_char c) # czech_key (d # cs))"

definition czech_compare :: "string \<Rightarrow> string \<Rightarrow> int" where
  "czech_compare a b =
     (if czech_key a < czech_key b then - 1 else if czech_key a = czech_key b then 0 else 1)"

section \<open>Example data\<close>

text \<open>
  Snapshots quoted against USD whose rates are binary64 values: one with a key that is
  not a currency code, one with many such keys, one with the Czech and the Swiss
  currency, and the one of the specification's composition example (0.9 EUR and 150 JPY
  per USD, 0.9 as the binary64 value nearest to it). The first rates as a row of the
  table; processes whose cache holds one of the snapshots and one whose cache is empty
  while the table holds the row; a provider that cannot be reached, one that answers
  with an error status, one that answers with success and no rates, and one that answers
  with success while the database rejects the write.
\<close>

definition example_rates :: rates_obj where
  "example_rates = [(''USD'', 1), (''EUR'', 1 / 2), (''jpy99'', 150), (''AUD'', 3 / 2)]"

definition example_snapshot :: snapshot where
  "example_snapshot =
     \<lparr>base_currency = ''USD'', rates = RatesObject example_rates,
      last_updated = ''2024-01-01T00:00:00.000Z''\<rparr>"

definition example_row :: row where
  "example_row =
     \<lparr>row_base_currency = ''USD'', row_rates = Json (RatesObject example_rates),
      row_last_updated = ''2024-01-01 00:00:00''\<rparr>"

definition stored_snapshot :: snapshot where
  "stored_snapshot =
     \<lparr>base_currency = ''USD'', rates = RatesObject example_rates,
      last_updated = ''2024-01-01 00:00:00''\<rparr>"

definition world_live :: world where
  "world_live =
     \<lparr>ratesCache = Some example_snapshot, exchange_rates = Map.empty, trace = []\<rparr>"

definition world_stored :: world where
  "world_stored =
     \<lparr>ratesCache = None, exchange_rates = [''USD'' \<mapsto> example_row], trace = []\<rparr>"

definition spec_rates :: rates_obj where
  "spec_rates =
     [(''USD'', 1), (''EUR'', 8106479329266893 / 9007199254740992), (''JPY'', 150)]"

definition spec_snapshot :: snapshot where
  "spec_snapshot =
     \<lparr>base_currency = ''USD'', rates = RatesObject spec_rates,
      last_updated = ''2024-01-01T00:00:00.000Z''\<rparr>"

definition world_spec :: world where
  "world_spec = \<lparr>ratesCache = Some spec_snapshot, exchange_rates = Map.empty, trace = []\<rparr>"

definition spec_conversion :: conversion where
  "spec_conversion =
     \<lparr>c_from = ''EUR'', c_to = ''JPY'', c_amount = Fin 100,
      c_result = Fin (4581298449158293 / 274877906944),
      c_rate = Fin (5864062026533457 / 35184372088832),
      c_last_updated = ''2024-01-01T00:00:00.000Z''\<rparr>"

definition tiny_conversion :: conversion where
  "tiny_conversion =
     \<lparr>c_from = ''USD'', c_to = ''EUR'', c_amount = Fin (1 / 1048576),
      c_result = Fin 0, c_rate = Fin 0, c_last_updated = ''2024-01-01T00:00:00.000Z''\<rparr>"

definition keys_rates :: rates_obj where
  "keys_rates =
     [(''USD'', 1), (''usd'', 1), (''ZZZ'', 2), (''[ZZ'', 2), (''US'', 1), (''AAA'', 3),
      (''@AA'', 3), (''USDX'', 1), (''U1D'', 1), (''jpy99'', 150), (''EUR'', 1 / 2),
      (''A Z'', 1), (''Aaa'', 1), (''AZ{'', 1), (''AZ`'', 1)]"

definition keys_snapshot :: snapshot where
  "keys_snapshot =
     \<lparr>base_currency = ''USD'', rates = RatesObject keys_rates,
      last_updated = ''2024-01-01T00:00:00.000Z''\<rparr>"

definition world_keys :: world where
  "world_keys = \<lparr>ratesCache = Some keys_snapshot, exchange_rates = Map.empty, trace = []\<rparr>"

definition czech_rates :: rates_obj where
  "czech_rates =
     [(''USD'', 1), (''EUR'', 1 / 2), (''CHF'', 7 / 8), (''CZK'', 23), (''HUF'', 360)]"

definition czech_snapshot :: snapshot where
  "czech_snapshot =
     \<lparr>base_currency = ''USD'', rates = RatesObject czech_rates,
      last_updated = ''2024-01-01T00:00:00.000Z''\<rparr>"

definition world_czech :: world where
  "world_czech = \<lparr>ratesCache = Some czech_snapshot, exchange_rates = Map.empty, trace = []\<rparr>"

definition env_down :: env where
  "env_down =
     \<lparr>fetch_response = Rejects, db_run_fails = False, db_get_fails = False,
      now_iso = ''2024-01-02T00:00:00.000Z'', current_timestamp = ''2024-01-02 00:00:00'',
      display_name = (\<lambda>c. if c = ''EUR'' then Some ''Euro'' else Some c),
      localeCompare = alphabet_compare\<rparr>"

definition env_czech :: env where
  "env_czech = env_down\<lparr>localeCompare := czech_compare\<rparr>"

definition env_error_status :: env where
  "env_error_status =
     env_down\<lparr>fetch_response := Parsed (JValue (Some ''error'') RatesUndefined)\<rparr>"

definition env_no_rates :: env where
  "env_no_rates =
     env_down\<lparr>fetch_response := Parsed (JValue (Some ''success'') RatesUndefined)\<rparr>"

definition env_write_fails :: env where
  "env_write_fails =
     env_down\<lparr>fetch_response := Parsed (JValue (Some ''success'') (RatesObject example_rates)),
              db_run_fails := True\<rparr>"

section \<open>The accuracy of binary64 rounding\<close>

text \<open>The width of a positive integer is the number of its binary digits.\<close>

lemma bit_width_bounds:
  "0 < n \<Longrightarrow> \<exists>j. bit_width n = 1 + int j \<and> 2 ^ j \<le> n \<and> n < 2 ^ Suc j"
proof (induction n rule: bit_width.induct)
  case (1 n)
  show ?case
  proof (cases "n = 1")
    case True
    have "bit_width 1 = 1 + int 0"
      by (simp add: bit_width.simps [of 1] bit_width.simps [of 0])
    with True show ?thesis by auto
  next
    case False
    with "1.prems" have pos: "0 < n div 2" by simp
    then obtain j where j: "bit_width (n div 2) = 1 + int j" "2 ^ j \<le> n div 2"
        "n div 2 < 2 ^ Suc j"
      using "1.IH" "1.prems" by auto
    have w: "bit_width n = 1 + int (Suc j)"
      using "1.prems" j by (simp add: bit_width.simps [of n])
    have lo: "(2::int) ^ Suc j \<le> n"
      using j(2) by simp
    have hi: "n < (2::int) ^ Suc (Suc j)"
      using j(3) by simp
    from w lo hi show ?thesis by blast
  qed
qed

lemma pow2_powi: "pow2 k = 2 powi k"
  by (simp add: pow2_def power_int_def inverse_eq_divide power_one_over)

lemma floor_pow2_bounds:
  assumes "1 \<le> (y :: rat)"
  shows "\<exists>j. bit_width \<lfloor>y\<rfloor> = 1 + int j \<and> 2 ^ j \<le> y \<and> y < 2 ^ Suc j"
proof -
  have "0 < \<lfloor>y\<rfloor>" using assms by simp
  then obtain j where j: "bit_width \<lfloor>y\<rfloor> = 1 + int j" "2 ^ j \<le> \<lfloor>y\<rfloor>" "\<lfloor>y\<rfloor> < 2 ^ Suc j"
    using bit_width_bounds by blast
  have "(of_int (2 ^ j) :: rat) \<le> of_int \<lfloor>y\<rfloor>"
    using j(2) by (simp only: of_int_le_iff)
  also have "\<dots> \<le> y" by simp
  finally have a: "(2::rat) ^ j \<le> y" by simp
  have "\<lfloor>y\<rfloor> + 1 \<le> 2 ^ Suc j" using j(3) by simp
  then have "(of_int (\<lfloor>y\<rfloor> + 1) :: rat) \<le> of_int (2 ^ Suc j)"
    by (simp only: of_int_le_iff)
  moreover have "y < of_int (\<lfloor>y\<rfloor> + 1)" by linarith
  ultimately have b: "y < (2::rat) ^ Suc j" by simp
  from j(1) a b show ?thesis by blast
qed

text \<open>\<open>ilog2\<close> is the binary exponent of a positive number.\<close>

lemma ilog2_bounds:
  assumes "0 < x"
  shows "2 powi ilog2 x \<le> x \<and> x < 2 powi (ilog2 x + 1)"
proof (cases "1 \<le> x")
  case True
  then obtain j where j: "bit_width \<lfloor>x\<rfloor> = 1 + int j" "2 ^ j \<le> x" "x < 2 ^ Suc j"
    using floor_pow2_bounds by blast
  have "ilog2 x = int j"
    using True j(1) by (simp add: ilog2_def)
  moreover have "(2::rat) powi (int j + 1) = 2 ^ Suc j"
    by (simp add: power_int_add_1)
  ultimately show ?thesis
    using j(2,3) by simp
next
  case False
  have y1: "1 \<le> 1 / x" using False assms by simp
  then obtain k where k: "bit_width \<lfloor>1 / x\<rfloor> = 1 + int k" "2 ^ k \<le> 1 / x" "1 / x < 2 ^ Suc k"
    using floor_pow2_bounds by blast
  have up: "x * 2 ^ k \<le> 1"
    using k(2) assms by (simp add: field_simps)
  have down: "1 < x * 2 ^ Suc k"
    using k(3) assms by (simp add: field_simps)
  have neg: "(2::rat) powi (- int k) = 1 / 2 ^ k"
    by (simp add: power_int_minus inverse_eq_divide)
  have "- int k - 1 = - int (Suc k)" by simp
  then have "(2::rat) powi (- int k - 1) = 2 powi (- int (Suc k))"
    by (rule arg_cong)
  also have "\<dots> = inverse (2 powi int (Suc k))"
    by (rule power_int_minus)
  also have "\<dots> = 1 / 2 ^ Suc k"
    by (simp only: power_int_of_nat inverse_eq_divide)
  finally have neg1: "(2::rat) powi (- int k - 1) = 1 / 2 ^ Suc k" .
  show ?thesis
  proof (cases "x * 2 ^ k = 1")
    case True
    then have e: "ilog2 x = - int k"
      using False k(1) by (simp add: ilog2_def pow2_def Let_def)
    have x: "x = 1 / 2 ^ k"
      using True by (simp add: field_simps)
    have "(2::rat) powi (- int k + 1) = 2 * (1 / 2 ^ k)"
      using power_int_add_1 [of "2::rat" "- int k"] neg by simp
    moreover have "(1::rat) / 2 ^ k < 2 * (1 / 2 ^ k)"
      by (simp add: divide_strict_right_mono)
    ultimately show ?thesis
      unfolding e using neg x by simp
  next
    case neq: False
    then have e: "ilog2 x = - int k - 1"
      using False k(1) by (simp add: ilog2_def pow2_def Let_def)
    have lt: "x * 2 ^ k < 1" using up neq by simp
    have "1 / 2 ^ Suc k < x"
      using down by (simp add: field_simps)
    moreover have "x < 1 / 2 ^ k"
      using lt by (simp add: field_simps)
    ultimately show ?thesis
      unfolding e using neg neg1 by simp
  qed
qed

text \<open>Rounding to an integer moves a number by at most one half.\<close>

lemma round_half_even_near: "\<bar>of_int (round_half_even y) - y\<bar> \<le> 1 / 2"
proof -
  define f where "f = \<lfloor>y\<rfloor>"
  define d where "d = y - of_int f"
  have d: "0 \<le> d" "d < 1"
    unfolding d_def f_def by linarith+
  have r: "round_half_even y =
      (if d < 1 / 2 then f else if 1 / 2 < d then f + 1 else if even f then f else f + 1)"
    by (simp add: round_half_even_def Let_def f_def d_def)
  then consider "round_half_even y = f" "d \<le> 1 / 2" | "round_half_even y = f + 1" "1 / 2 \<le> d"
    by (cases "d < 1 / 2"; cases "1 / 2 < d"; cases "even f") simp_all
  then show ?thesis
  proof cases
    case 1
    then show ?thesis using d by (auto simp: d_def abs_if)
  next
    case 2
    then show ?thesis using d by (auto simp: d_def abs_if)
  qed
qed

lemma fl_finite_form:
  assumes "fl x = Fin y" and "x \<noteq> 0"
  shows "y = of_int (round_half_even (x / 2 powi (max (ilog2 \<bar>x\<bar>) (- 1022) - 52))) *
             2 powi (max (ilog2 \<bar>x\<bar>) (- 1022) - 52)"
  using assms by (simp add: fl_def Let_def pow2_powi split: if_splits)

text \<open>
  The binary64 value of a number in the normal range differs from it by at most the
  fraction \<open>2 ^ - 53\<close> of its magnitude.
\<close>

lemma fl_error:
  assumes "fl x = Fin y" and "2 powi (- 1022) \<le> \<bar>x\<bar>"
  shows "\<bar>y - x\<bar> \<le> \<bar>x\<bar> / 2 ^ 53"
proof -
  have pos: "0 < \<bar>x\<bar>"
  proof -
    have "(0::rat) < 2 powi (- 1022)" by (rule zero_less_power_int) simp
    with assms(2) show ?thesis by linarith
  qed
  then have nz: "x \<noteq> 0" by simp
  define e where "e = ilog2 \<bar>x\<bar>"
  have b: "2 powi e \<le> \<bar>x\<bar>" "\<bar>x\<bar> < 2 powi (e + 1)"
    using ilog2_bounds [OF pos] by (simp_all add: e_def)
  have "(2::rat) powi (- 1022) < 2 powi (e + 1)"
    using assms(2) b(2) by linarith
  then have "- 1022 < e + 1"
    by (metis linorder_not_less one_less_numeral_iff power_int_increasing
        order_less_imp_le semiring_norm(76))
  then have emax: "max e (- 1022) = e" by simp
  define q :: rat where "q = 2 powi (e - 52)"
  have qpos: "0 < q"
    unfolding q_def by (rule zero_less_power_int) simp
  define m where "m = round_half_even (x / q)"
  have y: "y = of_int m * q"
    using fl_finite_form [OF assms(1) nz] emax by (simp add: e_def q_def m_def)
  have "\<bar>of_int m - x / q\<bar> \<le> 1 / 2"
    unfolding m_def by (rule round_half_even_near)
  then have "\<bar>of_int m - x / q\<bar> * q \<le> 1 / 2 * q"
    using qpos by (simp add: mult_right_mono)
  moreover have "\<bar>of_int m - x / q\<bar> * q = \<bar>y - x\<bar>"
  proof -
    have "\<bar>of_int m - x / q\<bar> * q = \<bar>(of_int m - x / q) * q\<bar>"
      using qpos by (simp add: abs_mult)
    also have "(of_int m - x / q) * q = y - x"
      using qpos by (simp add: y field_simps)
    finally show ?thesis .
  qed
  ultimately have near: "\<bar>y - x\<bar> \<le> q / 2" by simp
  have "q = 2 powi e / 2 ^ 52"
    unfolding q_def by (simp add: power_int_diff)
  then have "q / 2 = 2 powi e / 2 ^ 53" by simp
  also have "\<dots> \<le> \<bar>x\<bar> / 2 ^ 53"
    using b(1) by (simp add: divide_right_mono)
  finally show ?thesis using near by linarith
qed

section \<open>Reads leave the cache alone\<close>

lemmas example_defs =
  example_rates_def example_snapshot_def example_row_def stored_snapshot_def
  world_live_def world_stored_def env_down_def env_error_status_def

lemma live_available: "fst (getExchangeRates env_down world_live) = Some example_snapshot"
  by (simp add: getExchangeRates_def world_live_def)

lemma getRates_cache: "ratesCache (snd (getRates e w b)) = ratesCache w"
  by (simp add: getRates_def emit_def Let_def split: option.splits sum.splits)

lemma getExchangeRates_cache: "ratesCache (snd (getExchangeRates e w)) = ratesCache w"
proof (cases "ratesCache w")
  case None
  obtain r w1 where g: "getRates e w BASE_CURRENCY = (r, w1)"
    by (cases "getRates e w BASE_CURRENCY")
  have "ratesCache w1 = ratesCache w"
    using getRates_cache [of e w BASE_CURRENCY] g by simp
  with None g show ?thesis
    by (cases r) (simp_all add: getExchangeRates_def emit_def)
next
  case (Some s)
  then show ?thesis by (simp add: getExchangeRates_def)
qed

lemma convertCurrency_world:
  "snd (convertCurrency e w from to amount) = snd (getExchangeRates e w)"
proof -
  obtain r w1 where g: "getExchangeRates e w = (r, w1)"
    by (cases "getExchangeRates e w")
  then show ?thesis
    by (cases r) (simp_all add: convertCurrency_def Let_def split: sum.splits)
qed

lemma getAvailableCurrencies_world:
  "snd (getAvailableCurrencies e w) = snd (getExchangeRates e w)"
proof -
  obtain r w1 where g: "getExchangeRates e w = (r, w1)"
    by (cases "getExchangeRates e w")
  then show ?thesis
    by (cases r) (simp_all add: getAvailableCurrencies_def Let_def split: sum.splits)
qed

text \<open>
  C10. None of the three read operations assigns \<open>ratesCache\<close>: after
  \<open>getExchangeRates\<close>, \<open>convertCurrency\<close> and \<open>getAvailableCurrencies\<close> the cache
  is what it was before, also when the read missed the cache and loaded the snapshot
  from the database.
\<close>

theorem reads_keep_cache:
  "ratesCache (snd (getExchangeRates e w)) = ratesCache w \<and>
   ratesCache (snd (convertCurrency e w from to amount)) = ratesCache w \<and>
   ratesCache (snd (getAvailableCurrencies e w)) = ratesCache w"
  by (simp add: getExchangeRates_cache convertCurrency_world getAvailableCurrencies_world)

text \<open>A read that misses the cache returns the stored snapshot and the cache stays empty.\<close>

theorem reads_keep_cache_witness:
  "ratesCache world_stored = None \<and>
   fst (getExchangeRates env_down world_stored) = Some stored_snapshot \<and>
   ratesCache (snd (getExchangeRates env_down world_stored)) = None \<and>
   ratesCache (snd (convertCurrency env_down world_stored ''USD'' ''EUR'' (Fin 100))) = None \<and>
   ratesCache (snd (getAvailableCurrencies env_down world_stored)) = None"
proof -
  have h1: "ratesCache world_stored = None"
    by (simp add: world_stored_def)
  have h2: "fst (getExchangeRates env_down world_stored) = Some stored_snapshot"
    by (simp add: getExchangeRates_def getRates_def emit_def example_defs BASE_CURRENCY_def)
  from reads_keep_cache [of env_down world_stored "''USD''" "''EUR''" "Fin 100"] h1 h2
  show ?thesis by simp
qed

text \<open>
  C5. When the cache is empty and the table holds a row for the base currency whose text
  parses, and the database answers the query, \<open>getExchangeRates\<close> returns the snapshot
  of that row; the one effect of the call is a single \<open>db.get\<close> for the base currency,
  and the cache stays empty.
\<close>

theorem cache_miss_reads_store:
  assumes "ratesCache w = None"
    and "exchange_rates w BASE_CURRENCY = Some r"
    and "row_rates r = Json rs"
    and "\<not> db_get_fails e"
  shows "getExchangeRates e w =
           (Some \<lparr>base_currency = row_base_currency r, rates = rs,
                  last_updated = row_last_updated r\<rparr>,
            w\<lparr>trace := trace w @ [DbGet BASE_CURRENCY]\<rparr>)"
  using assms by (simp add: getExchangeRates_def getRates_def emit_def Let_def)

theorem cache_miss_reads_store_witness:
  "ratesCache world_stored = None \<and>
   exchange_rates world_stored BASE_CURRENCY = Some example_row \<and>
   row_rates example_row = Json (RatesObject example_rates) \<and>
   \<not> db_get_fails env_down \<and>
   getExchangeRates env_down world_stored =
     (Some stored_snapshot, world_stored\<lparr>trace := [DbGet ''USD'']\<rparr>)"
proof -
  have h1: "ratesCache world_stored = None"
    by (simp add: world_stored_def)
  have h2: "exchange_rates world_stored BASE_CURRENCY = Some example_row"
    by (simp add: world_stored_def BASE_CURRENCY_def)
  have h3: "row_rates example_row = Json (RatesObject example_rates)"
    by (simp add: example_row_def)
  have h4: "\<not> db_get_fails env_down"
    by (simp add: env_down_def)
  from cache_miss_reads_store [OF h1 h2 h3 h4] h1 h2 h3 h4
  show ?thesis
    by (simp add: stored_snapshot_def example_row_def world_stored_def BASE_CURRENCY_def)
qed

section \<open>Refresh\<close>

text \<open>
  C9. \<open>updateExchangeRates\<close> never raises to its caller: whatever the provider answers
  and whether or not the database reports an error to the write or to the read, the
  promise it returns is fulfilled; an exception that leaves the \<open>try\<close> block is
  caught and reported with \<open>console.error\<close>.
\<close>

theorem refresh_never_raises:
  "fst (updateExchangeRates e w) = Inr () \<and>
   (fst (updateExchangeRates_try e w) \<noteq> None \<longrightarrow>
      ConsoleError ''Error updating exchange rates:''
        \<in> set (trace (snd (updateExchangeRates e w))))"
proof -
  obtain err w1 where t: "updateExchangeRates_try e w = (err, w1)"
    by (cases "updateExchangeRates_try e w")
  show ?thesis
  proof (cases err)
    case None
    with t show ?thesis by (simp add: updateExchangeRates_def)
  next
    case (Some x)
    let ?w2 = "emit (ConsoleError ''Error updating exchange rates:'') w1"
    obtain r w3 where g: "getRates e ?w2 BASE_CURRENCY = (r, w3)"
      by (cases "getRates e ?w2 BASE_CURRENCY")
    have logged: "ConsoleError ''Error updating exchange rates:'' \<in> set (trace ?w2)"
      by (simp add: emit_def)
    have kept: "set (trace ?w2) \<subseteq> set (trace w3)"
      using g by (auto simp: getRates_def emit_def Let_def
          split: if_splits option.splits sum.splits)
    from t Some g logged kept show ?thesis
      by (cases r) (auto simp: updateExchangeRates_def Let_def emit_def)
  qed
qed

text \<open>
  The provider answers with success and the database rejects the write: the new snapshot
  is in the cache, the rejection is caught and logged, and the promise is fulfilled.
\<close>

theorem refresh_never_raises_witness:
  "fst (updateExchangeRates_try env_write_fails world_stored) = Some DbError \<and>
   fst (updateExchangeRates env_write_fails world_stored) = Inr () \<and>
   ConsoleError ''Error updating exchange rates:''
     \<in> set (trace (snd (updateExchangeRates env_write_fails world_stored))) \<and>
   ratesCache (snd (updateExchangeRates env_write_fails world_stored)) =
     Some \<lparr>base_currency = ''USD'', rates = RatesObject example_rates,
           last_updated = ''2024-01-02T00:00:00.000Z''\<rparr>"
proof -
  have thrown: "fst (updateExchangeRates_try env_write_fails world_stored) = Some DbError"
    by (simp add: updateExchangeRates_try_def saveRates_def emit_def Let_def
        env_write_fails_def env_down_def)
  have cache: "ratesCache (snd (updateExchangeRates env_write_fails world_stored)) =
     Some \<lparr>base_currency = ''USD'', rates = RatesObject example_rates,
           last_updated = ''2024-01-02T00:00:00.000Z''\<rparr>"
    by (simp add: updateExchangeRates_def updateExchangeRates_try_def saveRates_def emit_def
        Let_def env_write_fails_def env_down_def BASE_CURRENCY_def)
  from refresh_never_raises [of env_write_fails world_stored] thrown cache
  show ?thesis by simp
qed

lemma try_failed:
  assumes "refresh_failed (fetch_response e)"
  shows "\<exists>err. updateExchangeRates_try e w = (err, emit Fetch w)"
  using assms
  by (auto simp: refresh_failed_def updateExchangeRates_try_def Let_def
           split: fetch_outcome.splits api_data.splits)

text \<open>
  C2, as the claim states it, fails for one kind of malformed response: a body with the
  status success and no \<open>conversion_rates\<close>. The code tests the status only, so with
  a snapshot in the cache the refresh replaces it by a snapshot whose \<open>rates\<close> is
  \<open>undefined\<close>, and \<open>getExchangeRates\<close> returns that one afterwards.
\<close>

theorem success_without_rates_replaces_cache:
  "ratesCache world_live = Some example_snapshot \<and>
   fetch_response env_no_rates = Parsed (JValue (Some ''success'') RatesUndefined) \<and>
   ratesCache (snd (updateExchangeRates env_no_rates world_live)) =
     Some \<lparr>base_currency = ''USD'', rates = RatesUndefined,
           last_updated = ''2024-01-02T00:00:00.000Z''\<rparr> \<and>
   fst (getExchangeRates env_no_rates (snd (updateExchangeRates env_no_rates world_live))) =
     Some \<lparr>base_currency = ''USD'', rates = RatesUndefined,
           last_updated = ''2024-01-02T00:00:00.000Z''\<rparr> \<and>
   rates example_snapshot \<noteq> RatesUndefined"
  by (simp add: updateExchangeRates_def updateExchangeRates_try_def saveRates_def emit_def
      getExchangeRates_def Let_def env_no_rates_def env_down_def world_live_def
      example_snapshot_def BASE_CURRENCY_def)

text \<open>
  C2, amended. When the cache holds a snapshot and the refresh fails by a network error,
  by a body that does not parse (or parses to \<open>null\<close>) or by a status other than
  success, \<open>updateExchangeRates\<close> leaves the cached snapshot as it is, and
  \<open>getExchangeRates\<close> afterwards returns exactly that snapshot.
\<close>

theorem sticky_last_good:
  assumes "ratesCache w = Some snap" and "refresh_failed (fetch_response e)"
  shows "ratesCache (snd (updateExchangeRates e w)) = Some snap \<and>
         fst (getExchangeRates e' (snd (updateExchangeRates e w))) = Some snap"
proof -
  obtain err where t: "updateExchangeRates_try e w = (err, emit Fetch w)"
    using try_failed [OF assms(2)] by blast
  have c: "ratesCache (snd (updateExchangeRates e w)) = Some snap"
    using t assms(1)
    by (cases err) (simp_all add: updateExchangeRates_def emit_def Let_def)
  then show ?thesis
    by (simp add: getExchangeRates_def)
qed

theorem sticky_last_good_witness:
  "ratesCache world_live = Some example_snapshot \<and>
   refresh_failed (fetch_response env_down) \<and>
   refresh_failed (fetch_response env_error_status) \<and>
   ratesCache (snd (updateExchangeRates env_down world_live)) = Some example_snapshot \<and>
   fst (getExchangeRates env_down (snd (updateExchangeRates env_down world_live))) =
     Some example_snapshot \<and>
   ratesCache (snd (updateExchangeRates env_error_status world_live)) = Some example_snapshot"
proof -
  have cached: "ratesCache world_live = Some example_snapshot"
    by (simp add: world_live_def)
  have failed: "refresh_failed (fetch_response env_down)"
    by (simp add: env_down_def refresh_failed_def)
  have status: "refresh_failed (fetch_response env_error_status)"
    by (simp add: env_error_status_def env_down_def refresh_failed_def)
  from sticky_last_good [OF cached failed, of env_down]
    sticky_last_good [OF cached status, of env_down] cached failed status
  show ?thesis by simp
qed

text \<open>
  The fallback of the \<open>catch\<close> block: when the cache is empty and the failure is an
  exception of the \<open>try\<close> block (\<open>fetch\<close> rejects, the body does not parse, or it
  parses to \<open>null\<close>), the refresh queries the database once and the cache becomes what
  the query delivers; it stays empty when the query fails, finds no row or finds text
  that does not parse.
\<close>

lemma refresh_thrown_falls_back:
  assumes "ratesCache w = None"
    and "fetch_response e \<in> {Rejects, Unparsable, Parsed JNull}"
  shows "ratesCache (snd (updateExchangeRates e w)) =
           (if db_get_fails e then None
            else case exchange_rates w BASE_CURRENCY of
                   None \<Rightarrow> None
                 | Some r \<Rightarrow>
                     (case parse (row_rates r) of
                        Inr rs \<Rightarrow>
                          Some \<lparr>base_currency = row_base_currency r, rates = rs,
                                last_updated = row_last_updated r\<rparr>
                      | Inl parseError \<Rightarrow> None)) \<and>
         DbGet BASE_CURRENCY \<in> set (trace (snd (updateExchangeRates e w)))"
  using assms
  by (auto simp: updateExchangeRates_def updateExchangeRates_try_def getRates_def emit_def
        Let_def split: option.splits sum.splits)

text \<open>
  C1. The claim asks that every failed refresh with an empty cache tries the database.
  A status other than success throws nothing, so the \<open>catch\<close> block that holds the
  fallback does not run: with an empty cache, a row for USD in the table and the
  provider answering \<open>{"result": "error"}\<close>, the refresh performs the fetch and nothing
  else. The cache stays empty although \<open>getRates\<close> would have delivered the snapshot.
\<close>

theorem refresh_error_status_skips_store:
  "ratesCache world_stored = None \<and>
   refresh_failed (fetch_response env_error_status) \<and>
   fst (getRates env_error_status world_stored BASE_CURRENCY) = Inr (Some stored_snapshot) \<and>
   updateExchangeRates env_error_status world_stored =
     (Inr (), world_stored\<lparr>trace := [Fetch]\<rparr>)"
  by (simp add: updateExchangeRates_def updateExchangeRates_try_def getRates_def emit_def
      refresh_failed_def example_defs BASE_CURRENCY_def)

section \<open>Conversion\<close>

lemma validate_not_inherited:
  "validateCurrencyCode k \<Longrightarrow> k \<notin> set object_prototype_names"
  by (auto simp: validateCurrencyCode_def object_prototype_names_def)

lemma get_prop_missing:
  "validateCurrencyCode k \<Longrightarrow> map_of rs k = None \<Longrightarrow> get_prop rs k = Undefined"
  by (simp add: get_prop_def validate_not_inherited)

lemma get_prop_own: "map_of rs k = Some v \<Longrightarrow> get_prop rs k = Number v"
  by (simp add: get_prop_def)

text \<open>
  What \<open>convertCurrency\<close> returns once \<open>getExchangeRates\<close> has delivered a snapshot
  whose rates are a rates object.
\<close>

lemma convertCurrency_object:
  assumes "fst (getExchangeRates e w) = Some snap" and "rates snap = RatesObject rs"
  shows "fst (convertCurrency e w from to amount) =
           (if \<not> truthy (get_prop rs from) \<or> \<not> truthy (get_prop rs to)
            then Inr None
            else Inr (Some \<lparr>c_from = from, c_to = to, c_amount = amount,
                   c_result =
                     toFixed6 (convertedAmount (get_prop rs from) (get_prop rs to) from to amount),
                   c_rate =
                     toFixed6 (jdiv (toFixed6 (convertedAmount (get_prop rs from) (get_prop rs to)
                                                from to amount)) amount),
                   c_last_updated = last_updated snap\<rparr>))"
proof -
  obtain r w1 where g: "getExchangeRates e w = (r, w1)"
    by (cases "getExchangeRates e w")
  with assms have "r = Some snap" by simp
  with g assms(2) show ?thesis
    by (simp add: convertCurrency_def Let_def)
qed

lemma convertCurrency_success:
  assumes "fst (getExchangeRates e w) = Some snap"
    and "fst (convertCurrency e w from to amount) = Inr (Some c)"
  shows "\<exists>vfrom vto.
           read_prop (rates snap) from = Inr vfrom \<and> read_prop (rates snap) to = Inr vto \<and>
           c_result c = toFixed6 (convertedAmount vfrom vto from to amount) \<and>
           c_rate c = toFixed6 (jdiv (c_result c) amount)"
proof -
  obtain r w1 where g: "getExchangeRates e w = (r, w1)"
    by (cases "getExchangeRates e w")
  with assms(1) have "r = Some snap" by simp
  with g assms(2) show ?thesis
    by (auto simp: convertCurrency_def Let_def split: sum.splits if_splits)
qed

text \<open>\<open>Number(x.toFixed(6))\<close> is \<open>x\<close> rounded to six decimals.\<close>

lemma toFixed6_rounds:
  assumes "\<bar>x\<bar> < 10 ^ 21"
  shows "rounded_to_6_decimals x (toFixed6 (Fin x))"
proof -
  define m where "m = \<lfloor>\<bar>x\<bar> * 10 ^ 6 + 1 / 2\<rfloor>"
  define n where "n = (if x < 0 then - m else m)"
  have lo: "of_int m \<le> \<bar>x\<bar> * 10 ^ 6 + 1 / 2"
    unfolding m_def by (rule of_int_floor_le)
  have hi: "\<bar>x\<bar> * 10 ^ 6 + 1 / 2 < of_int m + 1"
    unfolding m_def by linarith
  have half: "\<lfloor>1 / 2 :: rat\<rfloor> = 0"
    by (rule floor_unique) simp_all
  have zero: "x = 0 \<Longrightarrow> m = 0"
    by (simp add: m_def half)
  have sign: "sgn x * of_int m = (of_int n :: rat)"
    using zero by (cases "x < 0"; cases "x = 0") (simp_all add: n_def sgn_if)
  have up: "(of_int m :: rat) / 10 ^ 6 \<le> \<bar>x\<bar> + 1 / (2 * 10 ^ 6)"
    using lo by (simp add: field_simps)
  have down: "\<bar>x\<bar> - 1 / (2 * 10 ^ 6) < (of_int m :: rat) / 10 ^ 6"
    using hi by (simp add: field_simps)
  have "\<bar>(of_int m :: rat) / 10 ^ 6 - \<bar>x\<bar>\<bar> \<le> 1 / (2 * 10 ^ 6)"
    using up down by linarith
  moreover have "\<bar>(of_int m :: rat) / 10 ^ 6 - \<bar>x\<bar>\<bar> = \<bar>of_int n / 10 ^ 6 - x\<bar>"
  proof (cases "x < 0")
    case True
    then have "(of_int n :: rat) / 10 ^ 6 - x = - (of_int m / 10 ^ 6 - \<bar>x\<bar>)"
      by (simp add: n_def)
    then show ?thesis
      by (simp only: abs_minus_cancel)
  next
    case False
    then show ?thesis
      by (simp add: n_def)
  qed
  ultimately have near: "\<bar>of_int n / 10 ^ 6 - x\<bar> \<le> 1 / (2 * 10 ^ 6)"
    by simp
  have "toFixed6 (Fin x) = fl (sgn x * of_int m / 10 ^ 6)"
    using assms by (simp add: toFixed6_def m_def Let_def)
  then have "toFixed6 (Fin x) = fl (of_int n / 10 ^ 6)"
    by (simp only: sign)
  with near show ?thesis
    unfolding rounded_to_6_decimals_def by blast
qed

text \<open>
  C7. With a snapshot available whose rates are a rates object, and \<open>from\<close>, \<open>to\<close>
  codes of three capital letters (the precondition of \<open>convert\<close>, which its caller
  enforces), \<open>convertCurrency\<close> returns \<open>null\<close> when \<open>from\<close> or \<open>to\<close> is
  not a key of the rates.
\<close>

theorem unknown_currency_unavailable:
  assumes "fst (getExchangeRates e w) = Some snap"
    and "rates snap = RatesObject rs"
    and "validateCurrencyCode from" and "validateCurrencyCode to"
    and "map_of rs from = None \<or> map_of rs to = None"
  shows "fst (convertCurrency e w from to amount) = Inr None"
  using assms(3-5)
  by (auto simp: convertCurrency_object [OF assms(1,2)] get_prop_missing)

text \<open>
  C4. With a snapshot available and both currencies keys of its rates, the rates being
  the data model's multipliers (not zero, so that they pass the truthiness test), the
  conversion succeeds and its result is the amount routed through the base currency,
  \<open>amount * rates[to]\<close> when \<open>from\<close> is the base, \<open>amount / rates[from]\<close> when
  \<open>to\<close> is the base and \<open>(amount / rates[from]) * rates[to]\<close> otherwise, then
  rounded to six decimals. On finite numbers the product and the quotient are the
  binary64 values of the exact product and quotient, and the result lies within half a
  unit of the sixth decimal place of the routed amount.
\<close>

theorem convert_routes_through_base:
  assumes "fst (getExchangeRates e w) = Some snap"
    and "rates snap = RatesObject rs"
    and "map_of rs from = Some rf" and "map_of rs to = Some rt"
    and "rf \<noteq> 0" and "rt \<noteq> 0"
  shows "\<exists>c. fst (convertCurrency e w from to amount) = Inr (Some c) \<and>
           c_result c =
             toFixed6 (if from = BASE_CURRENCY then jmul amount (Fin rt)
                       else if to = BASE_CURRENCY then jdiv amount (Fin rf)
                       else jmul (jdiv amount (Fin rf)) (Fin rt)) \<and>
           (from = BASE_CURRENCY \<longrightarrow>
              (\<forall>a x. amount = Fin a \<and> fl (a * rt) = Fin x \<and> \<bar>x\<bar> < 10 ^ 21 \<longrightarrow>
                 rounded_to_6_decimals x (c_result c))) \<and>
           (from \<noteq> BASE_CURRENCY \<and> to = BASE_CURRENCY \<longrightarrow>
              (\<forall>a x. amount = Fin a \<and> fl (a / rf) = Fin x \<and> \<bar>x\<bar> < 10 ^ 21 \<longrightarrow>
                 rounded_to_6_decimals x (c_result c))) \<and>
           (from \<noteq> BASE_CURRENCY \<and> to \<noteq> BASE_CURRENCY \<longrightarrow>
              (\<forall>a u x. amount = Fin a \<and> fl (a / rf) = Fin u \<and> fl (u * rt) = Fin x \<and>
                   \<bar>x\<bar> < 10 ^ 21 \<longrightarrow>
                 rounded_to_6_decimals x (c_result c)))"
  using assms(3-6)
  by (auto simp: convertCurrency_object [OF assms(1,2)] get_prop_own convertedAmount_def
      toFixed6_rounds)

text \<open>
  C3. In every successful conversion the field \<open>result\<close> is the converted amount
  rounded to six decimals, and the field \<open>rate\<close> is the quotient of that rounded
  result by the amount, rounded to six decimals: the rate comes from the rounded result,
  not from the stored rates. On finite numbers the quotient is the binary64 value of the
  exact quotient, and the rate lies within half a unit of the sixth decimal place of it.
\<close>

theorem rate_from_rounded_result:
  assumes "fst (getExchangeRates e w) = Some snap"
    and "fst (convertCurrency e w from to amount) = Inr (Some c)"
  shows "\<exists>vfrom vto.
           read_prop (rates snap) from = Inr vfrom \<and> read_prop (rates snap) to = Inr vto \<and>
           c_result c = toFixed6 (convertedAmount vfrom vto from to amount) \<and>
           c_rate c = toFixed6 (jdiv (c_result c) amount) \<and>
           (\<forall>x. convertedAmount vfrom vto from to amount = Fin x \<and> \<bar>x\<bar> < 10 ^ 21 \<longrightarrow>
              rounded_to_6_decimals x (c_result c)) \<and>
           (\<forall>a r q. amount = Fin a \<and> a \<noteq> 0 \<and> c_result c = Fin r \<and> fl (r / a) = Fin q \<and>
                \<bar>q\<bar> < 10 ^ 21 \<longrightarrow>
              rounded_to_6_decimals q (c_rate c))"
proof -
  obtain vfrom vto where
    rd: "read_prop (rates snap) from = Inr vfrom" "read_prop (rates snap) to = Inr vto"
    and res: "c_result c = toFixed6 (convertedAmount vfrom vto from to amount)"
    and rate: "c_rate c = toFixed6 (jdiv (c_result c) amount)"
    using convertCurrency_success [OF assms] by blast
  have r1: "\<forall>x. convertedAmount vfrom vto from to amount = Fin x \<and> \<bar>x\<bar> < 10 ^ 21 \<longrightarrow>
              rounded_to_6_decimals x (c_result c)"
    by (simp add: res toFixed6_rounds)
  have r2: "\<forall>a r q. amount = Fin a \<and> a \<noteq> 0 \<and> c_result c = Fin r \<and> fl (r / a) = Fin q \<and>
                \<bar>q\<bar> < 10 ^ 21 \<longrightarrow> rounded_to_6_decimals q (c_rate c)"
    by (auto simp: rate toFixed6_rounds)
  from rd res rate r1 r2 show ?thesis by blast
qed

lemma fl_one: "fl 1 = Fin 1"
  by code_simp

lemma toFixed6_one: "toFixed6 (Fin 1) = Fin 1"
  by code_simp

text \<open>
  C6, amended. With a snapshot available whose rates give the base currency the rate 1,
  and a positive amount (a binary64 value) that rounding to six decimals leaves
  unchanged, the conversion from the base currency to itself returns the amount as its
  result and the rate 1.
\<close>

theorem base_to_base_identity:
  assumes "fst (getExchangeRates e w) = Some snap"
    and "rates snap = RatesObject rs"
    and "map_of rs BASE_CURRENCY = Some 1"
    and "0 < a" and "fl a = Fin a" and "toFixed6 (Fin a) = Fin a"
  shows "\<exists>c. fst (convertCurrency e w BASE_CURRENCY BASE_CURRENCY (Fin a)) = Inr (Some c) \<and>
           c_result c = Fin a \<and> c_rate c = Fin 1"
  using assms(3-6)
  by (simp add: convertCurrency_object [OF assms(1,2)] get_prop_own convertedAmount_def
      fl_one toFixed6_one)

lemma spec_available: "fst (getExchangeRates env_down world_spec) = Some spec_snapshot"
  by (simp add: getExchangeRates_def world_spec_def)

lemma spec_converted:
  "fst (convertCurrency env_down world_spec ''EUR'' ''JPY'' (Fin 100)) = Inr (Some spec_conversion)"
  by code_simp

theorem unknown_currency_unavailable_witness:
  "fst (getExchangeRates env_down world_live) = Some example_snapshot \<and>
   rates example_snapshot = RatesObject example_rates \<and>
   validateCurrencyCode ''USD'' \<and> validateCurrencyCode ''XYZ'' \<and>
   map_of example_rates ''XYZ'' = None \<and>
   fst (convertCurrency env_down world_live ''USD'' ''XYZ'' (Fin 10)) = Inr None"
proof -
  have h1: "rates example_snapshot = RatesObject example_rates"
    by (simp add: example_snapshot_def)
  have h2: "validateCurrencyCode ''USD''"
    by (simp add: validateCurrencyCode_def is_upper_def less_eq_char_def)
  have h3: "validateCurrencyCode ''XYZ''"
    by (simp add: validateCurrencyCode_def is_upper_def less_eq_char_def)
  have h4: "map_of example_rates ''XYZ'' = None"
    by (simp add: example_rates_def)
  from unknown_currency_unavailable [OF live_available h1 h2 h3 disjI2 [OF h4], of "Fin 10"]
    live_available h1 h2 h3 h4
  show ?thesis by simp
qed

text \<open>
  The composition example of the specification: 100 EUR at 0.9 EUR and 150 JPY per USD
  are \<open>(100 / 0.9) * 150 = 16666.666666666668\<close>, rounded to 16666.666667.
\<close>

theorem convert_routes_through_base_witness:
  "fst (getExchangeRates env_down world_spec) = Some spec_snapshot \<and>
   rates spec_snapshot = RatesObject spec_rates \<and>
   map_of spec_rates ''EUR'' = Some (8106479329266893 / 9007199254740992) \<and>
   map_of spec_rates ''JPY'' = Some 150 \<and>
   (8106479329266893 / 9007199254740992 :: rat) \<noteq> 0 \<and> (150 :: rat) \<noteq> 0 \<and>
   fl (100 / (8106479329266893 / 9007199254740992)) =
     Fin (3909374676536889 / 35184372088832) \<and>
   fl (3909374676536889 / 35184372088832 * 150) = Fin (4581298449066667 / 274877906944) \<and>
   (\<exists>c. fst (convertCurrency env_down world_spec ''EUR'' ''JPY'' (Fin 100)) = Inr (Some c) \<and>
        c_result c = Fin (4581298449158293 / 274877906944) \<and>
        rounded_to_6_decimals (4581298449066667 / 274877906944) (c_result c)) \<and>
   fl (16666666667 / 10 ^ 6) = Fin (4581298449158293 / 274877906944)"
proof -
  have h1: "rates spec_snapshot = RatesObject spec_rates"
    by (simp add: spec_snapshot_def)
  have h2: "map_of spec_rates ''EUR'' = Some (8106479329266893 / 9007199254740992)"
    by (simp add: spec_rates_def)
  have h3: "map_of spec_rates ''JPY'' = Some 150"
    by (simp add: spec_rates_def)
  have h4: "(8106479329266893 / 9007199254740992 :: rat) \<noteq> 0" by simp
  have h5: "(150 :: rat) \<noteq> 0" by simp
  have u: "fl (100 / (8106479329266893 / 9007199254740992)) =
      Fin (3909374676536889 / 35184372088832)"
    by code_simp
  have x: "fl (3909374676536889 / 35184372088832 * 150) = Fin (4581298449066667 / 274877906944)"
    by code_simp
  have small: "\<bar>4581298449066667 / 274877906944 :: rat\<bar> < 10 ^ 21" by simp
  have d: "fl (16666666667 / 10 ^ 6) = Fin (4581298449158293 / 274877906944)"
    by code_simp
  obtain c where c: "fst (convertCurrency env_down world_spec ''EUR'' ''JPY'' (Fin 100)) = Inr (Some c)"
    and routed: "''EUR'' \<noteq> BASE_CURRENCY \<and> ''JPY'' \<noteq> BASE_CURRENCY \<longrightarrow>
      (\<forall>a u x. Fin 100 = Fin a \<and> fl (a / (8106479329266893 / 9007199254740992)) = Fin u \<and>
           fl (u * 150) = Fin x \<and> \<bar>x\<bar> < 10 ^ 21 \<longrightarrow> rounded_to_6_decimals x (c_result c))"
    using convert_routes_through_base [OF spec_available h1 h2 h3 h4 h5, of "Fin 100"] by blast
  have "c = spec_conversion"
    using c spec_converted by simp
  then have res: "c_result c = Fin (4581298449158293 / 274877906944)"
    by (simp add: spec_conversion_def)
  have other: "''EUR'' \<noteq> BASE_CURRENCY \<and> ''JPY'' \<noteq> BASE_CURRENCY"
    by (simp add: BASE_CURRENCY_def)
  have "rounded_to_6_decimals (4581298449066667 / 274877906944) (c_result c)"
    using routed other u x small by blast
  with c res spec_available h1 h2 h3 h4 h5 u x d show ?thesis by blast
qed

text \<open>
  In the composition example the result 16666.666667 divided by 100 is 166.66666667,
  which rounds to the rate 166.666667. An amount of \<open>2 ^ - 20\<close> USD is \<open>2 ^ - 21\<close>
  EUR at the stored rate 0.5, which rounds to 0: the rate reported is 0, not 0.5.
\<close>

theorem rate_from_rounded_result_witness:
  "fst (getExchangeRates env_down world_spec) = Some spec_snapshot \<and>
   fst (convertCurrency env_down world_spec ''EUR'' ''JPY'' (Fin 100)) = Inr (Some spec_conversion) \<and>
   c_result spec_conversion = Fin (4581298449158293 / 274877906944) \<and>
   fl (4581298449158293 / 274877906944 / 100) = Fin (5864062014922615 / 35184372088832) \<and>
   rounded_to_6_decimals (5864062014922615 / 35184372088832) (c_rate spec_conversion) \<and>
   c_rate spec_conversion = Fin (5864062026533457 / 35184372088832) \<and>
   fl (166666667 / 10 ^ 6) = Fin (5864062026533457 / 35184372088832) \<and>
   fst (convertCurrency env_down world_live ''USD'' ''EUR'' (Fin (1 / 1048576))) =
     Inr (Some tiny_conversion) \<and>
   c_rate tiny_conversion = Fin 0"
proof -
  have res: "c_result spec_conversion = Fin (4581298449158293 / 274877906944)"
    by (simp add: spec_conversion_def)
  have rate: "c_rate spec_conversion = Fin (5864062026533457 / 35184372088832)"
    by (simp add: spec_conversion_def)
  have q: "fl (4581298449158293 / 274877906944 / 100) = Fin (5864062014922615 / 35184372088832)"
    by code_simp
  have small: "\<bar>5864062014922615 / 35184372088832 :: rat\<bar> < 10 ^ 21" by simp
  have d: "fl (166666667 / 10 ^ 6) = Fin (5864062026533457 / 35184372088832)"
    by code_simp
  have tiny: "fst (convertCurrency env_down world_live ''USD'' ''EUR'' (Fin (1 / 1048576))) =
     Inr (Some tiny_conversion)"
    by code_simp
  have zero: "c_rate tiny_conversion = Fin 0"
    by (simp add: tiny_conversion_def)
  obtain vfrom vto where
    "\<forall>a r q. Fin 100 = Fin a \<and> a \<noteq> 0 \<and> c_result spec_conversion = Fin r \<and>
        fl (r / a) = Fin q \<and> \<bar>q\<bar> < 10 ^ 21 \<longrightarrow>
      rounded_to_6_decimals q (c_rate spec_conversion)"
    using rate_from_rounded_result [OF spec_available spec_converted] by blast
  moreover have "(100 :: rat) \<noteq> 0" by simp
  ultimately
  have "rounded_to_6_decimals (5864062014922615 / 35184372088832) (c_rate spec_conversion)"
    using res q small by blast
  with spec_available spec_converted res q rate d tiny zero show ?thesis by blast
qed

text \<open>
  C6, as the claim states it, fails: the base-to-base path multiplies the amount by
  \<open>rates[base]\<close> and rounds the product to six decimals. With the rate 1 for USD, the
  valid amount \<open>2 ^ - 22\<close> (about 0.00000024) converts to the result 0 and the rate 0.
\<close>

theorem base_to_base_rounds_counterexample:
  "validateAmount (Fin (1 / 4194304)) \<and>
   fst (getExchangeRates env_down world_live) = Some example_snapshot \<and>
   fst (convertCurrency env_down world_live BASE_CURRENCY BASE_CURRENCY (Fin (1 / 4194304))) =
     Inr (Some \<lparr>c_from = ''USD'', c_to = ''USD'', c_amount = Fin (1 / 4194304),
                c_result = Fin 0, c_rate = Fin 0,
                c_last_updated = ''2024-01-01T00:00:00.000Z''\<rparr>)"
proof -
  have "validateAmount (Fin (1 / 4194304))"
    by (simp add: validateAmount_def isNaN_def jgreater_def)
  moreover have
    "fst (convertCurrency env_down world_live BASE_CURRENCY BASE_CURRENCY (Fin (1 / 4194304))) =
       Inr (Some \<lparr>c_from = ''USD'', c_to = ''USD'', c_amount = Fin (1 / 4194304),
                  c_result = Fin 0, c_rate = Fin 0,
                  c_last_updated = ''2024-01-01T00:00:00.000Z''\<rparr>)"
    by code_simp
  ultimately show ?thesis
    using live_available by simp
qed

theorem base_to_base_identity_witness:
  "fst (getExchangeRates env_down world_live) = Some example_snapshot \<and>
   rates example_snapshot = RatesObject example_rates \<and>
   map_of example_rates BASE_CURRENCY = Some 1 \<and>
   (0 :: rat) < 25 / 2 \<and> fl (25 / 2) = Fin (25 / 2) \<and>
   toFixed6 (Fin (25 / 2)) = Fin (25 / 2) \<and>
   (\<exists>c. fst (convertCurrency env_down world_live BASE_CURRENCY BASE_CURRENCY (Fin (25 / 2))) =
          Inr (Some c) \<and> c_result c = Fin (25 / 2) \<and> c_rate c = Fin 1)"
proof -
  have h1: "rates example_snapshot = RatesObject example_rates"
    by (simp add: example_snapshot_def)
  have h2: "map_of example_rates BASE_CURRENCY = Some 1"
    by (simp add: example_rates_def BASE_CURRENCY_def)
  have h3: "(0 :: rat) < 25 / 2" by simp
  have h4: "fl (25 / 2) = Fin (25 / 2)" by code_simp
  have h5: "toFixed6 (Fin (25 / 2)) = Fin (25 / 2)" by code_simp
  from base_to_base_identity [OF live_available h1 h2 h3 h4 h5] live_available h1 h2 h3 h4 h5
  show ?thesis by blast
qed

section \<open>The list of currencies\<close>

text \<open>The filter of the code is the pattern of a currency code.\<close>

lemma is_upper_iff: "is_upper c = (c \<in> set ''ABCDEFGHIJKLMNOPQRSTUVWXYZ'')"
proof
  assume "c \<in> set ''ABCDEFGHIJKLMNOPQRSTUVWXYZ''"
  then show "is_upper c"
    by (auto simp: is_upper_def less_eq_char_def)
next
  assume u: "is_upper c"
  then have "65 \<le> (of_char c :: nat) \<and> (of_char c :: nat) < 91"
    by (simp add: is_upper_def less_eq_char_def)
  then have "(of_char c :: nat) \<in> set [65 ..< 91]"
    by (simp only: set_upt atLeastLessThan_iff)
  then have "char_of (of_char c :: nat) \<in> char_of ` set [65 ..< (91 :: nat)]"
    by (rule imageI)
  then have "c \<in> set (map char_of [65 ..< (91 :: nat)])"
    by (simp only: set_map char_of_char)
  moreover have "map char_of [65 ..< (91 :: nat)] = ''ABCDEFGHIJKLMNOPQRSTUVWXYZ''"
    by code_simp
  ultimately show "c \<in> set ''ABCDEFGHIJKLMNOPQRSTUVWXYZ''"
    by simp
qed

lemma validate_three_capitals: "validateCurrencyCode k = three_capitals k"
proof -
  have "(\<forall>c \<in> set k. is_upper c) = (\<forall>c \<in> set k. c \<in> set ''ABCDEFGHIJKLMNOPQRSTUVWXYZ'')"
    by (rule ball_cong [OF refl]) (rule is_upper_iff)
  then show ?thesis
    by (simp only: validateCurrencyCode_def three_capitals_def list_all_iff subset_eq)
qed

lemma mset_insert_by: "mset (insert_by cmp x xs) = add_mset x (mset xs)"
  by (induction xs) simp_all

lemma mset_sort_by: "mset (sort_by cmp xs) = mset xs"
  by (induction xs) (simp_all add: sort_by_def mset_insert_by)

lemma set_sort_by: "set (sort_by cmp xs) = set xs"
  using mset_sort_by [of cmp xs] by (metis set_mset_mset)

lemma set_insert_by: "set (insert_by cmp x xs) = insert x (set xs)"
  using mset_insert_by [of cmp x xs] by (metis set_mset_mset set_mset_add_mset_insert)

text \<open>
  Insertion keeps a list of currencies sorted by code when the comparison function agrees
  with the order of the codes on the codes at hand.
\<close>

lemma sorted_insert_by_code:
  assumes agree: "\<forall>a b. P a \<and> P b \<longrightarrow> (cmp a b \<le> 0) = (a \<le> b)"
    and "P (code x)" and "\<forall>y \<in> set xs. P (code y)" and "sorted (map code xs)"
  shows "sorted (map code (insert_by (\<lambda>a b. cmp (code a) (code b)) x xs))"
  using assms(3,4)
proof (induction xs)
  case Nil
  then show ?case by simp
next
  case (Cons y ys)
  have cmp: "(cmp (code x) (code y) \<le> 0) = (code x \<le> code y)"
    using agree assms(2) Cons.prems(1) by simp
  show ?case
  proof (cases "code x \<le> code y")
    case True
    with Cons.prems cmp show ?thesis
      by auto
  next
    case False
    then have "code y \<le> code x" by simp
    with False Cons cmp show ?thesis
      by (auto simp: set_insert_by)
  qed
qed

lemma sorted_sort_by_code:
  assumes agree: "\<forall>a b. P a \<and> P b \<longrightarrow> (cmp a b \<le> 0) = (a \<le> b)"
    and "\<forall>y \<in> set xs. P (code y)"
  shows "sorted (map code (sort_by (\<lambda>a b. cmp (code a) (code b)) xs))"
  using assms(2)
proof (induction xs)
  case Nil
  then show ?case by (simp add: sort_by_def)
next
  case (Cons x xs)
  have "sorted (map code (sort_by (\<lambda>a b. cmp (code a) (code b)) xs))"
    using Cons by simp
  moreover have "\<forall>y \<in> set (sort_by (\<lambda>a b. cmp (code a) (code b)) xs). P (code y)"
    using Cons.prems by (simp add: set_sort_by)
  moreover have "P (code x)"
    using Cons.prems by simp
  ultimately
  have "sorted (map code (insert_by (\<lambda>a b. cmp (code a) (code b)) x
                  (sort_by (\<lambda>a b. cmp (code a) (code b)) xs)))"
    using sorted_insert_by_code [OF agree] by blast
  then show ?case
    by (simp add: sort_by_def)
qed

lemma getAvailableCurrencies_keys:
  assumes "fst (getExchangeRates e w) = Some snap" and "object_keys (rates snap) = Inr ks"
  shows "fst (getAvailableCurrencies e w) =
           Inr (Some \<lparr>currencies =
                   sort_by (\<lambda>a b. localeCompare e (code a) (code b))
                     (map (\<lambda>c. \<lparr>code = c, name = name_or_code e c\<rparr>)
                        (filter validateCurrencyCode ks)),
                 cl_last_updated = last_updated snap\<rparr>)"
proof -
  obtain r w1 where g: "getExchangeRates e w = (r, w1)"
    by (cases "getExchangeRates e w")
  with assms have "r = Some snap" by simp
  with g assms(2) show ?thesis
    by (simp add: getAvailableCurrencies_def Let_def)
qed

text \<open>
  C8, amended. With a snapshot available whose rates have keys (they are not
  \<open>undefined\<close> or \<open>null\<close>), and a default locale whose \<open>localeCompare\<close> orders
  codes of three capital letters as the alphabet does, \<open>getAvailableCurrencies\<close>
  returns a list whose codes are exactly the keys that are three capital letters (each
  as often as it is a key, all other keys dropped), in ascending lexicographic order,
  each with the display name of the code, or with the code itself when there is no
  display name; the list carries the snapshot's \<open>last_updated\<close>.
\<close>

theorem currencies_filtered_sorted_named:
  assumes "fst (getExchangeRates e w) = Some snap"
    and "object_keys (rates snap) = Inr ks"
    and "\<forall>a b. three_capitals a \<and> three_capitals b \<longrightarrow> (localeCompare e a b \<le> 0) = (a \<le> b)"
  shows "\<exists>cl. fst (getAvailableCurrencies e w) = Inr (Some cl) \<and>
           mset (map code (currencies cl)) = mset (filter three_capitals ks) \<and>
           sorted (map code (currencies cl)) \<and>
           (\<forall>c \<in> set (currencies cl).
              name c = (case display_name e (code c) of
                          None \<Rightarrow> code c
                        | Some n \<Rightarrow> if n = [] then code c else n)) \<and>
           cl_last_updated cl = last_updated snap"
proof -
  let ?ks = "filter validateCurrencyCode ks"
  let ?cs = "map (\<lambda>c. \<lparr>code = c, name = name_or_code e c\<rparr>) ?ks"
  let ?out = "sort_by (\<lambda>a b. localeCompare e (code a) (code b)) ?cs"
  have filt: "?ks = filter three_capitals ks"
    by (rule filter_cong [OF refl]) (rule validate_three_capitals)
  have sorted_same: "mset (map code ?out) = mset (map code ?cs)"
    by (simp only: mset_map mset_sort_by)
  have codes: "map code ?cs = ?ks"
    by (simp add: comp_def)
  have "mset (map code ?out) = mset ?ks"
    using sorted_same unfolding codes .
  also have "mset ?ks = mset (filter three_capitals ks)"
    by (rule arg_cong [OF filt])
  finally have keys: "mset (map code ?out) = mset (filter three_capitals ks)" .
  have valid: "\<forall>y \<in> set ?cs. three_capitals (code y)"
    by (auto simp: validate_three_capitals)
  have ordered: "sorted (map code ?out)"
    by (rule sorted_sort_by_code [OF assms(3) valid])
  have names: "\<forall>c \<in> set ?out. name c = (case display_name e (code c) of
                          None \<Rightarrow> code c
                        | Some n \<Rightarrow> if n = [] then code c else n)"
    by (auto simp: set_sort_by name_or_code_def split: option.splits)
  show ?thesis
    using keys names ordered
    by (simp add: getAvailableCurrencies_keys [OF assms(1,2)])
qed

text \<open>
  Of fifteen keys, the four that are three capital letters remain, AAA and ZZZ among
  them; lower case, other lengths, digits, blanks and the characters next to A and Z in
  the character set are dropped.
\<close>

theorem currencies_filtered_sorted_named_witness:
  "fst (getExchangeRates env_down world_keys) = Some keys_snapshot \<and>
   object_keys (rates keys_snapshot) =
     Inr [''USD'', ''usd'', ''ZZZ'', ''[ZZ'', ''US'', ''AAA'', ''@AA'', ''USDX'', ''U1D'',
          ''jpy99'', ''EUR'', ''A Z'', ''Aaa'', ''AZ{'', ''AZ`''] \<and>
   filter three_capitals
     [''USD'', ''usd'', ''ZZZ'', ''[ZZ'', ''US'', ''AAA'', ''@AA'', ''USDX'', ''U1D'',
      ''jpy99'', ''EUR'', ''A Z'', ''Aaa'', ''AZ{'', ''AZ`''] =
     [''USD'', ''ZZZ'', ''AAA'', ''EUR''] \<and>
   fst (getAvailableCurrencies env_down world_keys) =
     Inr (Some \<lparr>currencies =
             [\<lparr>code = ''AAA'', name = ''AAA''\<rparr>, \<lparr>code = ''EUR'', name = ''Euro''\<rparr>,
              \<lparr>code = ''USD'', name = ''USD''\<rparr>, \<lparr>code = ''ZZZ'', name = ''ZZZ''\<rparr>],
           cl_last_updated = ''2024-01-01T00:00:00.000Z''\<rparr>) \<and>
   (\<exists>cl. fst (getAvailableCurrencies env_down world_keys) = Inr (Some cl) \<and>
      mset (map code (currencies cl)) = mset [''USD'', ''ZZZ'', ''AAA'', ''EUR''] \<and>
      sorted (map code (currencies cl)) \<and>
      (\<forall>c \<in> set (currencies cl).
         name c = (case display_name env_down (code c) of
                     None \<Rightarrow> code c
                   | Some n \<Rightarrow> if n = [] then code c else n)) \<and>
      cl_last_updated cl = last_updated keys_snapshot)"
proof -
  have avail: "fst (getExchangeRates env_down world_keys) = Some keys_snapshot"
    by (simp add: getExchangeRates_def world_keys_def)
  have ks: "object_keys (rates keys_snapshot) =
     Inr [''USD'', ''usd'', ''ZZZ'', ''[ZZ'', ''US'', ''AAA'', ''@AA'', ''USDX'', ''U1D'',
          ''jpy99'', ''EUR'', ''A Z'', ''Aaa'', ''AZ{'', ''AZ`'']"
    by (simp add: keys_snapshot_def keys_rates_def)
  have collation: "\<forall>a b. three_capitals a \<and> three_capitals b \<longrightarrow>
      (localeCompare env_down a b \<le> 0) = (a \<le> b)"
    by (auto simp: env_down_def alphabet_compare_def)
  have filt: "filter three_capitals
     [''USD'', ''usd'', ''ZZZ'', ''[ZZ'', ''US'', ''AAA'', ''@AA'', ''USDX'', ''U1D'',
      ''jpy99'', ''EUR'', ''A Z'', ''Aaa'', ''AZ{'', ''AZ`''] =
     [''USD'', ''ZZZ'', ''AAA'', ''EUR'']"
    by (simp add: three_capitals_def)
  have out: "fst (getAvailableCurrencies env_down world_keys) =
     Inr (Some \<lparr>currencies =
             [\<lparr>code = ''AAA'', name = ''AAA''\<rparr>, \<lparr>code = ''EUR'', name = ''Euro''\<rparr>,
              \<lparr>code = ''USD'', name = ''USD''\<rparr>, \<lparr>code = ''ZZZ'', name = ''ZZZ''\<rparr>],
           cl_last_updated = ''2024-01-01T00:00:00.000Z''\<rparr>)"
    by code_simp
  from currencies_filtered_sorted_named [OF avail ks collation]
  have "\<exists>cl. fst (getAvailableCurrencies env_down world_keys) = Inr (Some cl) \<and>
      mset (map code (currencies cl)) = mset [''USD'', ''ZZZ'', ''AAA'', ''EUR''] \<and>
      sorted (map code (currencies cl)) \<and>
      (\<forall>c \<in> set (currencies cl).
         name c = (case display_name env_down (code c) of
                     None \<Rightarrow> code c
                   | Some n \<Rightarrow> if n = [] then code c else n)) \<and>
      cl_last_updated cl = last_updated keys_snapshot"
    unfolding filt .
  with avail ks filt out show ?thesis by blast
qed

text \<open>
  C8, as the claim states it, fails: the list is sorted with \<open>localeCompare\<close>, which
  collates in the default locale of the process. In the Czech locale CHF comes after
  HUF, and the list is not in lexicographic order.
\<close>

theorem czech_locale_order_counterexample:
  "fst (getExchangeRates env_czech world_czech) = Some czech_snapshot \<and>
   fst (getAvailableCurrencies env_czech world_czech) =
     Inr (Some \<lparr>currencies =
             [\<lparr>code = ''CZK'', name = ''CZK''\<rparr>, \<lparr>code = ''EUR'', name = ''Euro''\<rparr>,
              \<lparr>code = ''HUF'', name = ''HUF''\<rparr>, \<lparr>code = ''CHF'', name = ''CHF''\<rparr>,
              \<lparr>code = ''USD'', name = ''USD''\<rparr>],
           cl_last_updated = ''2024-01-01T00:00:00.000Z''\<rparr>) \<and>
   \<not> sorted [''CZK'', ''EUR'', ''HUF'', ''CHF'', ''USD'']"
proof -
  have "fst (getExchangeRates env_czech world_czech) = Some czech_snapshot"
    by (simp add: getExchangeRates_def world_czech_def)
  moreover have "fst (getAvailableCurrencies env_czech world_czech) =
     Inr (Some \<lparr>currencies =
             [\<lparr>code = ''CZK'', name = ''CZK''\<rparr>, \<lparr>code = ''EUR'', name = ''Euro''\<rparr>,
              \<lparr>code = ''HUF'', name = ''HUF''\<rparr>, \<lparr>code = ''CHF'', name = ''CHF''\<rparr>,
              \<lparr>code = ''USD'', name = ''USD''\<rparr>],
           cl_last_updated = ''2024-01-01T00:00:00.000Z''\<rparr>)"
    by code_simp
  moreover have "\<not> sorted [''CZK'', ''EUR'', ''HUF'', ''CHF'', ''USD'']"
    by code_simp
  ultimately show ?thesis by blast
qed

end
